theory Spec2Isabelle
  imports Main "HOL-Library.Multiset"
begin

section \<open>Gangplank stages: data model\<close>

text \<open>
  The \<open>Stage\<close> struct of the \<open>spec\<close> package. Go strings are \<open>string\<close>, slices of
  strings are lists, \<open>ExecutionOrder\<close> is a Go \<open>int\<close> on which the code only compares and
  assigns, so \<open>int\<close> is exact.
\<close>

record Stage =
  ID :: string
  Description :: string
  ConcurrentExecution :: bool
  DirectExec :: bool
  NotBlocking :: bool
  RequireArtifacts :: "string list"
  BuildArtifacts :: "string list"
  Commands :: "string list"
  PrepCommands :: "string list"
  PostCommands :: "string list"
  PostAlways :: bool
  ExecutionOrder :: int

text \<open>The zero value \<open>Stage{}\<close> (also what \<open>var s Stage\<close> declares).\<close>

definition zeroStage :: Stage where
  "zeroStage = \<lparr>ID = [], Description = [], ConcurrentExecution = False, DirectExec = False,
     NotBlocking = False, RequireArtifacts = [], BuildArtifacts = [], Commands = [],
     PrepCommands = [], PostCommands = [], PostAlways = False, ExecutionOrder = 0\<rparr>"

text \<open>
  The declaration of \<open>JobSpec\<close> lies outside the files at hand; these are the fields the
  code reads and writes (\<open>j.Stages\<close>, \<open>j.DelayedMetaMerge\<close>, \<open>j.Job.StrictMode\<close>).
\<close>

record Job =
  StrictMode :: bool

record JobSpec =
  Stages :: "Stage list"
  DelayedMetaMerge :: bool
  Job :: Job

subsection \<open>Library functions used by the package\<close>

text \<open>\<open>strings.Join\<close>.\<close>

fun Join :: "string list \<Rightarrow> string \<Rightarrow> string" where
  "Join [] sep = []"
| "Join [x] sep = x"
| "Join (x # y # ys) sep = x @ sep @ Join (y # ys) sep"

text \<open>
  \<open>strings.Split(s, sep)\<close> for a separator of one byte, which is how the planner calls it
  (\<open>"+"\<close>): the result is never empty, and \<open>Split "" "+"\<close> is \<open>[""]\<close>.
\<close>

fun Split :: "string \<Rightarrow> char \<Rightarrow> string list" where
  "Split [] sep = [[]]"
| "Split (c # cs) sep =
     (if c = sep then [] # Split cs sep
      else (case Split cs sep of [] \<Rightarrow> [[c]] | w # ws \<Rightarrow> (c # w) # ws))"

text \<open>The verb \<open>%d\<close> of \<open>fmt.Sprintf\<close>: decimal digits, a minus sign for negatives.\<close>

definition digit :: "nat \<Rightarrow> char" where
  "digit d = ''0123456789'' ! d"

fun decimal :: "nat \<Rightarrow> string" where
  "decimal n = (if n < 10 then [digit n] else decimal (n div 10) @ [digit (n mod 10)])"

declare decimal.simps [simp del]

definition Sprintf_d :: "int \<Rightarrow> string" where
  "Sprintf_d i = (if i < 0 then CHR ''-'' # decimal (nat (- i)) else decimal (nat i))"

section \<open>The shorthand planner\<close>

text \<open>
  \<open>log.Fatalf\<close> ends the process; the planner then produces no Stage. It is the only way
  the planner fails.
\<close>

datatype fatal = UnknownArtifactType string

text \<open>
  The closure \<open>quickStage\<close> inside \<open>addShorthandToStage\<close>. Its default branch reads the
  enclosing function's \<open>artifact\<close>, not its own parameter \<open>noun\<close>: both the test
  \<open>cosa.CanArtifact(artifact)\<close> and the build list. \<open>cosa.CanArtifact\<close> belongs to another
  package and is a parameter here.
\<close>

definition quickStage :: "(string \<Rightarrow> bool) \<Rightarrow> string \<Rightarrow> string \<Rightarrow> fatal + Stage" where
  "quickStage CanArtifact artifact noun =
    (if noun = ''base'' then
       Inr (zeroStage\<lparr>ExecutionOrder := 1, BuildArtifacts := [''base''],
                       RequireArtifacts := [''base'']\<rparr>)
     else if noun = ''finalize'' then
       Inr (zeroStage\<lparr>BuildArtifacts := [''finalize''], ExecutionOrder := 999\<rparr>)
     else if noun = ''live-iso'' then
       Inr (zeroStage\<lparr>ExecutionOrder := 2, BuildArtifacts := [''live-iso''],
                       RequireArtifacts := [''qemu'', ''metal'', ''metal4k'']\<rparr>)
     else if noun = ''metal'' then
       Inr (zeroStage\<lparr>ExecutionOrder := 2, BuildArtifacts := [''metal'']\<rparr>)
     else if noun = ''metal4k'' then
       Inr (zeroStage\<lparr>ExecutionOrder := 2, BuildArtifacts := [''metal4k'']\<rparr>)
     else if CanArtifact artifact then
       Inr (zeroStage\<lparr>ExecutionOrder := 3, BuildArtifacts := [artifact],
                       RequireArtifacts := [''qemu'']\<rparr>)
     else Inl (UnknownArtifactType noun))"

text \<open>
  A Go slice is a window \<open>(array, len)\<close> onto a backing array. The closure \<open>remove\<close>
  deletes the first element equal to \<open>key\<close> with \<open>append(slice[:x], slice[x+1:]...)\<close>,
  which never reallocates: it shifts the tail of the window one place to the left inside
  the same backing array and returns a window one shorter. The cell that was last in the
  window keeps its old content, and cells beyond the window are untouched.
\<close>

type_synonym slice = "string list \<times> nat"

definition elems :: "slice \<Rightarrow> string list" where
  "elems s = take (snd s) (fst s)"

fun find_key :: "string list \<Rightarrow> string \<Rightarrow> nat \<Rightarrow> nat option" where
  "find_key [] key x = None"
| "find_key (s # ss) key x = (if s = key then Some x else find_key ss key (Suc x))"

definition remove :: "slice \<Rightarrow> string \<Rightarrow> slice \<times> bool" where
  "remove s key =
    (case find_key (elems s) key 0 of
       None \<Rightarrow> (s, False)
     | Some x \<Rightarrow>
         ((take x (fst s) @ drop (Suc x) (elems s) @ drop (snd s - 1) (fst s), snd s - 1),
          True))"

text \<open>
  The closure \<open>unique\<close>: a map of the keys seen and the list of first occurrences.
\<close>

fun unique_loop :: "(string \<rightharpoonup> bool) \<Rightarrow> string list \<Rightarrow> string list \<Rightarrow> string list" where
  "unique_loop keys list [] = list"
| "unique_loop keys list (entry # rest) =
     (case keys entry of
        None \<Rightarrow> unique_loop (keys(entry \<mapsto> True)) (list @ [entry]) rest
      | Some _ \<Rightarrow> unique_loop keys list rest)"

definition unique :: "string list \<Rightarrow> string list" where
  "unique strSlice = unique_loop Map.empty [] strSlice"

text \<open>
  The pruning loops of \<open>addShorthandToStage\<close>. \<open>realRequires\<close> starts as a copy of the
  slice header of \<open>stage.RequireArtifacts\<close>, so both are windows onto one backing array:
  the first component of the slice below. The inner \<open>range stage.RequireArtifacts\<close>
  fixes its length \<open>n\<close> when it starts and reads cell \<open>i\<close> of the backing array when it
  reaches it, so it sees the shifts that \<open>remove\<close> has made in the meantime.
\<close>

fun prune_inner :: "string \<Rightarrow> nat list \<Rightarrow> slice \<Rightarrow> slice" where
  "prune_inner ba [] realRequires = realRequires"
| "prune_inner ba (i # is) realRequires =
     (let ra = fst realRequires ! i
      in if ra = ba then prune_inner ba is (fst (remove realRequires ra))
         else prune_inner ba is realRequires)"

fun prune_outer :: "string list \<Rightarrow> nat \<Rightarrow> slice \<Rightarrow> slice" where
  "prune_outer [] n realRequires = realRequires"
| "prune_outer (ba # bas) n realRequires =
     prune_outer bas n (prune_inner ba [0..<n] realRequires)"

text \<open>
  \<open>artifactOrder\<close> is a \<open>map[int][]string\<close>. It is kept as an association list with one
  entry per key; \<open>append_at\<close> is \<open>m[k] = append(m[k], v)\<close>.
\<close>

fun append_at :: "(int \<times> string list) list \<Rightarrow> int \<Rightarrow> string \<Rightarrow> (int \<times> string list) list" where
  "append_at [] k v = [(k, [v])]"
| "append_at ((k', vs) # m) k v =
     (if k' = k then (k', vs @ [v]) # m else (k', vs) # append_at m k v)"

fun artifactOrder_loop ::
  "(string \<Rightarrow> bool) \<Rightarrow> string \<Rightarrow> string list \<Rightarrow> (int \<times> string list) list
     \<Rightarrow> fatal + (int \<times> string list) list" where
  "artifactOrder_loop CanArtifact artifact [] m = Inr m"
| "artifactOrder_loop CanArtifact artifact (v # vs) m =
     (case quickStage CanArtifact artifact v of
        Inl f \<Rightarrow> Inl f
      | Inr fakeStage \<Rightarrow>
          artifactOrder_loop CanArtifact artifact vs (append_at m (ExecutionOrder fakeStage) v))"

text \<open>
  Go does not specify the order in which \<open>range\<close> visits the entries of a map, and the
  runtime varies it from one loop to the next. A \<open>range\<close> over a map may therefore visit
  the entries in any of their permutations; code that ranges over a map has one outcome
  for each.
\<close>

fun insertions :: "'a \<Rightarrow> 'a list \<Rightarrow> 'a list list" where
  "insertions x [] = [[x]]"
| "insertions x (y # ys) = (x # y # ys) # map ((#) y) (insertions x ys)"

fun permutations :: "'a list \<Rightarrow> 'a list list" where
  "permutations [] = [[]]"
| "permutations (x # xs) = concat (map (insertions x) (permutations xs))"

text \<open>
  What \<open>addShorthandToStage\<close> does once the map \<open>artifactOrder\<close> is built and \<open>range\<close>
  visits its entries in the order \<open>visit\<close>; \<open>builds\<close>, \<open>requires\<close> and \<open>order\<close> are the
  fields of the stage after the two appends and the update of the execution order.
\<close>

definition finishShorthand ::
  "Stage \<Rightarrow> string list \<Rightarrow> string list \<Rightarrow> int \<Rightarrow> (int \<times> string list) list \<Rightarrow> Stage" where
  "finishShorthand stage builds requires order visit =
    (let newOrder = concat (map snd visit);
         builds' = unique newOrder;
         real0 = prune_outer builds' (length requires) (requires, length requires);
         (real1, foundBase) = remove real0 ''base'';
         real2 = (if foundBase then fst (remove (fst (remove real1 ''ostree'')) ''qemu'')
                  else real1)
     in stage\<lparr>
          ID := ''Generated Stage in Execution Order '' @ Sprintf_d order,
          Description := ''Stage '' @ Sprintf_d order @ '' execution for '' @ Join builds '','',
          ExecutionOrder := order,
          BuildArtifacts := builds',
          RequireArtifacts := unique (elems real2)\<rparr>)"

text \<open>
  \<open>addShorthandToStage\<close> changes \<open>*stage\<close> in place; the model returns the new value,
  one for each order in which the map may be visited, or the fatal exit.
\<close>

definition addShorthandToStage ::
  "(string \<Rightarrow> bool) \<Rightarrow> string \<Rightarrow> Stage \<Rightarrow> (fatal + Stage) list" where
  "addShorthandToStage CanArtifact artifact stage =
    (case quickStage CanArtifact artifact artifact of
       Inl f \<Rightarrow> [Inl f]
     | Inr working \<Rightarrow>
         (let builds = BuildArtifacts stage @ BuildArtifacts working;
              requires = RequireArtifacts stage @ RequireArtifacts working;
              order = (if ExecutionOrder working < ExecutionOrder stage
                          \<or> ExecutionOrder stage = 0
                       then ExecutionOrder working else ExecutionOrder stage)
          in case artifactOrder_loop CanArtifact artifact builds [] of
               Inl f \<Rightarrow> [Inl f]
             | Inr artifactOrder \<Rightarrow>
                 map (\<lambda>visit. Inr (finishShorthand stage builds requires order visit))
                     (permutations artifactOrder)))"

text \<open>Sequencing of steps that may exit and may have several outcomes.\<close>

definition and_then :: "(fatal + 'a) list \<Rightarrow> ('a \<Rightarrow> (fatal + 'b) list) \<Rightarrow> (fatal + 'b) list" where
  "and_then rs f = concat (map (\<lambda>r. case r of Inl e \<Rightarrow> [Inl e] | Inr a \<Rightarrow> f a) rs)"

text \<open>The inner loop of \<open>GenerateStages\<close> over the names of one group.\<close>

fun addShorthands :: "(string \<Rightarrow> bool) \<Rightarrow> string list \<Rightarrow> Stage \<Rightarrow> (fatal + Stage) list" where
  "addShorthands CanArtifact [] s = [Inr s]"
| "addShorthands CanArtifact (k # ks) s =
     and_then (addShorthandToStage CanArtifact k s) (addShorthands CanArtifact ks)"

text \<open>The outer loop: one fresh Stage for each group, appended to \<open>j.Stages\<close>.\<close>

fun stagesLoop :: "(string \<Rightarrow> bool) \<Rightarrow> string list \<Rightarrow> JobSpec \<Rightarrow> (fatal + JobSpec) list" where
  "stagesLoop CanArtifact [] j = [Inr j]"
| "stagesLoop CanArtifact (k # ks) j =
     and_then (addShorthands CanArtifact (Split k CHR ''+'') zeroStage)
       (\<lambda>s. stagesLoop CanArtifact ks (j\<lparr>Stages := Stages j @ [s]\<rparr>))"

definition GenerateStages ::
  "(string \<Rightarrow> bool) \<Rightarrow> string list \<Rightarrow> JobSpec \<Rightarrow> (fatal + JobSpec) list" where
  "GenerateStages CanArtifact fromNames j =
    (if length fromNames = 0 then [Inr j]
     else stagesLoop CanArtifact fromNames
            (j\<lparr>DelayedMetaMerge := True, Job := (Job j)\<lparr>StrictMode := True\<rparr>\<rparr>))"

section \<open>The stage executor\<close>

text \<open>
  A Go \<open>error\<close> value: one made from a text (\<open>errors.New\<close>, \<open>fmt.Errorf\<close> without
  \<open>%w\<close>) or one that wraps another behind a prefix (\<open>fmt.Errorf("...: %w", err)\<close>).
  A result of type \<open>error option\<close> is Go's \<open>error\<close> with \<open>None\<close> for \<open>nil\<close>.
\<close>

datatype error = New string | Wrapf string error

definition defaultBaseCommand :: string where
  "defaultBaseCommand = ''cosa fetch; cosa build;''"

definition defaultBaseDelayMergeCommand :: string where
  "defaultBaseDelayMergeCommand = ''cosa fetch; cosa build --delay-meta-merge;''"

definition defaultFinalizeCommand :: string where
  "defaultFinalizeCommand = ''cosa meta --finalize;''"

text \<open>
  What the executor calls outside its package, acting on a world \<open>'w\<close> (file system,
  processes): \<open>strings.ToLower\<close>, \<open>cosa.CanArtifact\<close>, \<open>ioutil.TempDir("", "stages")\<close>,
  \<open>ioutil.WriteFile path data 0755\<close> and \<open>os.RemoveAll\<close>, whose result the code drops.
\<close>

record 'w sys =
  ToLower :: "string \<Rightarrow> string"
  CanArtifact :: "string \<Rightarrow> bool"
  TempDir :: "'w \<Rightarrow> (error + string) \<times> 'w"
  WriteFile :: "string \<Rightarrow> string \<Rightarrow> 'w \<Rightarrow> error option \<times> 'w"
  RemoveAll :: "string \<Rightarrow> 'w \<Rightarrow> 'w"

text \<open>
  \<open>RenderData\<close> is declared outside the files at hand. The executor uses its job spec
  (a pointer it never tests; the model holds the value) and its capability
  \<open>RendererExecuter(ctx, envVars, script)\<close>, which runs a script in the world.
\<close>

record ('c, 'w) RenderData =
  JobSpec :: JobSpec
  RendererExecuter :: "'c \<Rightarrow> string list \<Rightarrow> string \<Rightarrow> 'w \<Rightarrow> error option \<times> 'w"

definition cosaBuildCmd :: "'w sys \<Rightarrow> string \<Rightarrow> JobSpec \<Rightarrow> error + string list" where
  "cosaBuildCmd sys b js =
    (if ToLower sys b = ''base'' then
       (if DelayedMetaMerge js then Inr [defaultBaseDelayMergeCommand]
        else Inr [defaultBaseCommand])
     else if ToLower sys b = ''finalize'' then Inr [defaultFinalizeCommand]
     else if CanArtifact sys b then Inr [''cosa buildextend-'' @ b]
     else Inl (New (b @ '' is not a known buildable artifact'')))"

text \<open>The first loop of \<open>getCommands\<close>: one slot for each build artifact, or the error.\<close>

fun artifactCmds :: "'w sys \<Rightarrow> JobSpec \<Rightarrow> string list \<Rightarrow> error + string list" where
  "artifactCmds sys js [] = Inr []"
| "artifactCmds sys js (ba # bas) =
     (case cosaBuildCmd sys ba js of
        Inl err \<Rightarrow> Inl err
      | Inr cmds \<Rightarrow>
          (case artifactCmds sys js bas of
             Inl err \<Rightarrow> Inl err
           | Inr ret \<Rightarrow> Inr (Join cmds [CHR 0x0A] # ret)))"

definition getCommands :: "'w sys \<Rightarrow> Stage \<Rightarrow> ('c, 'w) RenderData \<Rightarrow> error + string list" where
  "getCommands sys s rd =
    (case artifactCmds sys (JobSpec rd) (BuildArtifacts s) of
       Inl err \<Rightarrow> Inl err
     | Inr ret \<Rightarrow> Inr (ret @ Commands s))"

text \<open>
  \<open>filepath.Join(tmpd, name)\<close> for the directory \<open>ioutil.TempDir\<close> returns (an absolute,
  clean path) and a plain file name.
\<close>

definition filepath_Join :: "string \<Rightarrow> string \<Rightarrow> string" where
  "filepath_Join dir name = dir @ ''/'' @ name"

definition prepScript :: "string \<Rightarrow> string" where
  "prepScript tmpd = filepath_Join tmpd ''prep.sh''"

definition postScript :: "string \<Rightarrow> string" where
  "postScript tmpd = filepath_Join tmpd ''post.sh''"

definition outf :: "string \<Rightarrow> nat \<Rightarrow> string" where
  "outf tmpd i = filepath_Join tmpd (''script-'' @ decimal i @ ''.sh'')"

text \<open>
  The state threaded through a run: the world, and the scripts handed to the renderer so
  far, in the order of the calls. \<open>render\<close> is one call of \<open>rd.RendererExecuter\<close>.
\<close>

type_synonym 'w run = "'w \<times> string list"

definition render ::
  "('c, 'w) RenderData \<Rightarrow> 'c \<Rightarrow> string list \<Rightarrow> string \<Rightarrow> 'w run \<Rightarrow> error option \<times> 'w run" where
  "render rd ctx envVars script st =
    (case RendererExecuter rd ctx envVars script (fst st) of
       (r, w') \<Rightarrow> (r, (w', snd st @ [script])))"

text \<open>
  The loop that writes \<open>script-<i>.sh\<close> for each command and fills the map \<open>scripts\<close>;
  \<open>None\<close> when a write fails. The map has the keys \<open>0 .. n-1\<close>; the list holds its values
  by key.
\<close>

fun writeScripts :: "'w sys \<Rightarrow> string \<Rightarrow> string list \<Rightarrow> nat \<Rightarrow> 'w \<Rightarrow> string list option \<times> 'w" where
  "writeScripts sys tmpd [] i w = (Some [], w)"
| "writeScripts sys tmpd (c # cs) i w =
     (case WriteFile sys (outf tmpd i) c w of
        (Some err, w') \<Rightarrow> (None, w')
      | (None, w') \<Rightarrow>
          (case writeScripts sys tmpd cs (Suc i) w' of
             (None, w'') \<Rightarrow> (None, w'')
           | (Some scripts, w'') \<Rightarrow> (Some (outf tmpd i # scripts), w'')))"

text \<open>The serial branch, for the order \<open>range scripts\<close> takes: stop at the first error.\<close>

fun runSerial ::
  "('c, 'w) RenderData \<Rightarrow> 'c \<Rightarrow> string list \<Rightarrow> string list \<Rightarrow> 'w run \<Rightarrow> error option \<times> 'w run" where
  "runSerial rd ctx envVars [] st = (None, st)"
| "runSerial rd ctx envVars (v # vs) st =
     (case render rd ctx envVars v st of
        (Some err, st') \<Rightarrow> (Some err, st')
      | (None, st') \<Rightarrow> runSerial rd ctx envVars vs st')"

text \<open>
  The concurrent branch starts one task for each script; each task calls the renderer once
  and sends its result to the channel \<open>errors\<close>, whose capacity is the number of tasks, so
  no send blocks. \<open>wg.Wait()\<close> returns when all have finished. The tasks may finish in any
  order; \<open>runTasks\<close> takes that order, lets each call act on the world as a whole when its
  task finishes, and returns the content of the channel, oldest first.
\<close>

fun runTasks ::
  "('c, 'w) RenderData \<Rightarrow> 'c \<Rightarrow> string list \<Rightarrow> string list \<Rightarrow> 'w run
     \<Rightarrow> error option list \<times> 'w run" where
  "runTasks rd ctx envVars [] st = ([], st)"
| "runTasks rd ctx envVars (s # ss) st =
     (case render rd ctx envVars s st of
        (e, st') \<Rightarrow>
          (case runTasks rd ctx envVars ss st' of
             (es, st'') \<Rightarrow> (e # es, st'')))"

text \<open>
  The loop \<open>for x := 0; x <= len(errors); x++\<close> that receives from the channel:
  \<open>len(errors)\<close> is the number of results still queued and is read anew at each test.
  Nobody closes the channel, so \<open>ok\<close> is always true and a receive from the empty channel
  never returns: that is the result \<open>None\<close>; \<open>Some e\<close> is the value of \<open>e\<close> after the loop.
\<close>

fun drain :: "nat \<Rightarrow> error option list \<Rightarrow> error option \<Rightarrow> error option option" where
  "drain x [] e = (if x \<le> 0 then None else Some e)"
| "drain x (err # errors) e =
     (if x \<le> length (err # errors)
      then drain (Suc x) errors (case err of Some _ \<Rightarrow> err | None \<Rightarrow> e)
      else Some e)"

text \<open>How a call of \<open>Execute\<close> ends: it returns an \<open>error\<close> (\<open>None\<close> is \<open>nil\<close>) or hangs.\<close>

datatype result = Returned "error option" | Hangs

text \<open>
  A \<open>return ret\<close> after the scratch directory exists runs the deferred calls, last
  registered first: \<open>post.sh\<close> if \<open>PostAlways\<close> had registered it, its result dropped,
  then \<open>os.RemoveAll(tmpd)\<close>.
\<close>

definition leave ::
  "'w sys \<Rightarrow> ('c, 'w) RenderData \<Rightarrow> 'c \<Rightarrow> string list \<Rightarrow> string \<Rightarrow> bool \<Rightarrow> error option
     \<Rightarrow> 'w run \<Rightarrow> result \<times> 'w run" where
  "leave sys rd ctx envVars tmpd registered ret st =
    (let st1 = (if registered then snd (render rd ctx envVars (postScript tmpd) st) else st)
     in (Returned ret, (RemoveAll sys tmpd (fst st1), snd st1)))"

text \<open>
  The main command stage and what follows it, once the map \<open>scripts\<close> is filled; \<open>visit\<close>
  is the order in which \<open>range scripts\<close> yields the scripts (serial branch) or in which
  the tasks finish (concurrent branch).
\<close>

definition mainStage ::
  "'w sys \<Rightarrow> ('c, 'w) RenderData \<Rightarrow> 'c \<Rightarrow> string list \<Rightarrow> Stage \<Rightarrow> string \<Rightarrow> string list
     \<Rightarrow> 'w run \<Rightarrow> result \<times> 'w run" where
  "mainStage sys rd ctx envVars s tmpd visit st =
    (let after = (\<lambda>st'.
           if \<not> PostAlways s then
             (case render rd ctx envVars (postScript tmpd) st' of
                (r, st'') \<Rightarrow> leave sys rd ctx envVars tmpd (PostAlways s) r st'')
           else leave sys rd ctx envVars tmpd (PostAlways s) None st')
     in if \<not> ConcurrentExecution s then
          (case runSerial rd ctx envVars visit st of
             (Some err, st') \<Rightarrow> leave sys rd ctx envVars tmpd (PostAlways s) (Some err) st'
           | (None, st') \<Rightarrow> after st')
        else
          (case runTasks rd ctx envVars visit st of
             (errors, st') \<Rightarrow>
               (case drain 0 errors None of
                  None \<Rightarrow> (Hangs, st')
                | Some (Some e) \<Rightarrow> leave sys rd ctx envVars tmpd (PostAlways s) (Some e) st'
                | Some None \<Rightarrow> after st')))"

text \<open>
  \<open>Execute\<close>. \<open>ctx\<close> and \<open>rd\<close> may be \<open>nil\<close>. The result lists the outcomes of the call,
  one for each order in which the map \<open>scripts\<close> may be visited: the value returned, the
  world, and the scripts handed to the renderer.
\<close>

definition Execute ::
  "'w sys \<Rightarrow> 'c option \<Rightarrow> ('c, 'w) RenderData option \<Rightarrow> string list \<Rightarrow> Stage \<Rightarrow> 'w
     \<Rightarrow> (result \<times> 'w run) list" where
  "Execute sys ctx' rd' envVars s w =
    (case ctx' of
       None \<Rightarrow> [(Returned (Some (New ''context must not be nil'')), (w, []))]
     | Some ctx \<Rightarrow>
    (case rd' of
       None \<Rightarrow> [(Returned (Some (New ''render data must not be nil'')), (w, []))]
     | Some rd \<Rightarrow>
    (case getCommands sys s rd of
       Inl err \<Rightarrow> [(Returned (Some err), (w, []))]
     | Inr cmds \<Rightarrow>
    if length cmds = 0 then [(Returned (Some (New ''no commands to execute'')), (w, []))]
    else
    (case TempDir sys w of
       (Inl err, w0) \<Rightarrow> [(Returned (Some err), (w0, []))]
     | (Inr tmpd, w0) \<Rightarrow>
    (case WriteFile sys (prepScript tmpd) (Join (PrepCommands s) [CHR 0x0A]) w0 of
       (Some err, w1) \<Rightarrow> [leave sys rd ctx envVars tmpd False (Some err) (w1, [])]
     | (None, w1) \<Rightarrow>
    (case render rd ctx envVars (prepScript tmpd) (w1, []) of
       (Some err, st2) \<Rightarrow>
         [leave sys rd ctx envVars tmpd False
            (Some (Wrapf ''Failed execution of the prep stage: '' err)) st2]
     | (None, st2) \<Rightarrow>
    (case WriteFile sys (postScript tmpd) (Join (PostCommands s) [CHR 0x0A]) (fst st2) of
       (Some err, w3) \<Rightarrow> [leave sys rd ctx envVars tmpd False (Some err) (w3, snd st2)]
     | (None, w3) \<Rightarrow>
    (case writeScripts sys tmpd cmds 0 w3 of
       (None, w4) \<Rightarrow> [leave sys rd ctx envVars tmpd (PostAlways s) None (w4, snd st2)]
     | (Some scripts, w4) \<Rightarrow>
         map (\<lambda>visit. mainStage sys rd ctx envVars s tmpd visit (w4, snd st2))
             (permutations scripts)))))))))"

section \<open>The cluster runner\<close>

text \<open>
  \<open>v1.PodPhase\<close> is a string type with five named values; a pod status may carry any
  other string.
\<close>

datatype PodPhase =
  PodPending | PodRunning | PodSucceeded | PodFailed | PodUnknown | OtherPhase string

text \<open>
  What one round of the \<open>select\<close> in \<open>clusterRunner\<close> receives: a watch event whose
  object is a pod with a phase (\<open>None\<close> when \<open>events.Object\<close> is not a \<open>*v1.Pod\<close>, on
  which the type assertion panics), the closing of the watch channel, the timer of ninety
  minutes, a signal, or the end of the context. When several channels are ready Go picks
  one; the list given to \<open>watchLoop\<close> is the sequence of picks.
\<close>

datatype selected =
  WatchEvent "PodPhase option" | WatchClosed | TimeAfter | Sigs | CtxDone

datatype runner = Returns "error option" | Panics | Waits

text \<open>
  The loop \<open>for { select { ... } }\<close>. Opening the log streams in phase \<open>Running\<close>, the
  pause after \<open>Failed\<close> and the deferred deletion of the pod act on the cluster and the
  log files only; their errors are logged and nothing of them reaches the value returned.
  \<open>Waits\<close>: the picks are used up and the loop is back in \<open>select\<close>.
\<close>

fun watchLoop :: "selected list \<Rightarrow> runner" where
  "watchLoop [] = Waits"
| "watchLoop (WatchClosed # rest) = Returns (Some (New ''orphaned pod''))"
| "watchLoop (WatchEvent None # rest) = Panics"
| "watchLoop (WatchEvent (Some sp) # rest) =
     (case sp of
        PodSucceeded \<Rightarrow> Returns None
      | PodRunning \<Rightarrow> watchLoop rest
      | PodFailed \<Rightarrow> Returns (Some (New ''Pod is a failure in its life''))
      | _ \<Rightarrow> watchLoop rest)"
| "watchLoop (TimeAfter # rest) = Returns (Some (New ''Pod did not complete work in time''))"
| "watchLoop (Sigs # rest) = Returns (Some (New ''Termination requested''))"
| "watchLoop (CtxDone # rest) = Returns None"

text \<open>
  The calls before the loop: \<open>GetClient\<close>, \<open>Pods(ns).Create(pod)\<close> and
  \<open>Pods(ns).Watch(...)\<close>, each with the error it returns.
\<close>

record cluster =
  GetClient :: "error option"
  Create :: "error option"
  Watch :: "error option"

definition clusterRunner :: "cluster \<Rightarrow> string \<Rightarrow> selected list \<Rightarrow> runner" where
  "clusterRunner c podName picks =
    (case GetClient c of
       Some err \<Rightarrow> Returns (Some err)
     | None \<Rightarrow>
    (case Create c of
       Some err \<Rightarrow> Returns (Some (Wrapf (''failed to create pod '' @ podName @ '': '') err))
     | None \<Rightarrow>
    (case Watch c of
       Some err \<Rightarrow> Returns (Some err)
     | None \<Rightarrow> watchLoop picks)))"

text \<open>A pick that leaves the loop running: a pod event whose phase is not terminal.\<close>

fun waiting :: "selected \<Rightarrow> bool" where
  "waiting (WatchEvent (Some sp)) = (sp \<noteq> PodSucceeded \<and> sp \<noteq> PodFailed)"
| "waiting _ = False"

section \<open>Sample inputs\<close>

text \<open>A job spec without stages, and a catalogue of artifact names.\<close>

definition emptyJobSpec :: JobSpec where
  "emptyJobSpec = \<lparr>Stages = [], DelayedMetaMerge = False, Job = \<lparr>StrictMode = False\<rparr>\<rparr>"

definition sampleCatalogue :: "string \<Rightarrow> bool" where
  "sampleCatalogue a =
     (a \<in> set [''aws'', ''gcp'', ''qemu'', ''ostree'', ''metal'', ''metal4k'', ''live-iso''])"

text \<open>The three fields of a Stage that the planner's scenarios speak of.\<close>

definition plan :: "Stage \<Rightarrow> int \<times> string list \<times> string list" where
  "plan s = (ExecutionOrder s, BuildArtifacts s, RequireArtifacts s)"

definition plans :: "fatal + JobSpec \<Rightarrow> fatal + (int \<times> string list \<times> string list) list" where
  "plans r = map_sum id (\<lambda>j. map plan (Stages j)) r"

text \<open>
  A world without state in which the scratch directory is \<open>/tmp/stages1\<close> and every write
  succeeds, and one in which the write of \<open>script-0.sh\<close> fails. \<open>ToLower\<close> is the
  identity, which is what \<open>strings.ToLower\<close> is on the lower-case names used with them.
\<close>

definition quietSys :: "unit sys" where
  "quietSys = \<lparr>ToLower = (\<lambda>s. s), CanArtifact = sampleCatalogue,
     TempDir = (\<lambda>w. (Inr ''/tmp/stages1'', w)),
     WriteFile = (\<lambda>path data w. (None, w)),
     RemoveAll = (\<lambda>path w. w)\<rparr>"

definition fullDiskSys :: "unit sys" where
  "fullDiskSys = quietSys\<lparr>WriteFile := (\<lambda>path data w.
     (if path = ''/tmp/stages1/script-0.sh'' then Some (New ''no space left on device'')
      else None, w))\<rparr>"

text \<open>A renderer that fails on one script and succeeds on every other.\<close>

definition failOn :: "string \<Rightarrow> (unit, unit) RenderData" where
  "failOn script = \<lparr>JobSpec = emptyJobSpec,
     RendererExecuter = (\<lambda>ctx envVars s w.
       (if s = script then Some (New ''exit status 1'') else None, w))\<rparr>"

section \<open>Evaluation rules\<close>

lemma Sprintf_d_1: "Sprintf_d 1 = ''1''"
  by (simp add: Sprintf_d_def decimal.simps digit_def)

lemma decimal_digits:
  "decimal 0 = ''0''" "decimal (Suc 0) = ''1''" "decimal (Suc (Suc 0)) = ''2''"
  by (simp_all add: decimal.simps [of 0] decimal.simps [of "Suc 0"]
        decimal.simps [of "Suc (Suc 0)"] digit_def)

lemmas planner_eval = GenerateStages_def and_then_def addShorthandToStage_def quickStage_def
  zeroStage_def finishShorthand_def unique_def remove_def elems_def Sprintf_d_1 Let_def

lemmas executor_eval = Execute_def getCommands_def cosaBuildCmd_def mainStage_def leave_def
  render_def outf_def prepScript_def postScript_def filepath_Join_def decimal_digits
  quietSys_def fullDiskSys_def failOn_def zeroStage_def emptyJobSpec_def
  defaultBaseCommand_def Let_def

section \<open>Facts about the model\<close>

text \<open>\<open>permutations\<close> lists exactly the rearrangements of its argument.\<close>

lemma mset_insertions: "ys \<in> set (insertions x xs) \<Longrightarrow> mset ys = add_mset x (mset xs)"
  by (induction xs arbitrary: ys) auto

lemma insertions_split: "as @ x # bs \<in> set (insertions x (as @ bs))"
  by (induction as) (auto, cases bs, auto)

lemma mset_permutations: "ys \<in> set (permutations xs) \<Longrightarrow> mset ys = mset xs"
  by (induction xs arbitrary: ys) (auto dest: mset_insertions)

lemma permutations_complete: "mset ys = mset xs \<Longrightarrow> ys \<in> set (permutations xs)"
proof (induction xs arbitrary: ys)
  case Nil
  then show ?case by simp
next
  case (Cons x xs)
  then have "x \<in> set ys"
    by (metis list.set_intros(1) mset_eq_setD)
  then obtain as bs where ys: "ys = as @ x # bs"
    by (auto simp: in_set_conv_decomp)
  with Cons.prems have "mset (as @ bs) = mset xs" by simp
  then have "as @ bs \<in> set (permutations xs)" by (rule Cons.IH)
  then show ?case
    unfolding ys using insertions_split [of as x bs] by auto
qed

lemma set_permutations: "set (permutations xs) = {ys. mset ys = mset xs}"
  using mset_permutations permutations_complete by blast

text \<open>\<open>unique\<close> keeps every element once.\<close>

lemma unique_loop_step_new:
  "keys entry = None \<Longrightarrow>
     unique_loop keys list (entry # rest)
       = unique_loop (keys(entry \<mapsto> True)) (list @ [entry]) rest"
  by simp

lemma unique_loop_step_seen:
  "keys entry = Some b \<Longrightarrow> unique_loop keys list (entry # rest) = unique_loop keys list rest"
  by simp

lemma unique_loop_distinct:
  "distinct list \<Longrightarrow> dom keys = set list \<Longrightarrow> distinct (unique_loop keys list xs)"
proof (induction xs arbitrary: keys list)
  case Nil
  then show ?case by simp
next
  case (Cons entry rest)
  show ?case
  proof (cases "keys entry")
    case None
    then have "entry \<notin> dom keys" by (simp add: domIff)
    then have "entry \<notin> set list" using Cons.prems(2) by simp
    then have d: "distinct (list @ [entry])" using Cons.prems(1) by simp
    have k: "dom (keys(entry \<mapsto> True)) = set (list @ [entry])"
      using Cons.prems(2) by simp
    show ?thesis
      unfolding unique_loop_step_new [of keys entry list rest, OF None] by (rule Cons.IH [OF d k])
  next
    case (Some b)
    show ?thesis
      unfolding unique_loop_step_seen [of keys entry b list rest, OF Some] by (rule Cons.IH [OF Cons.prems])
  qed
qed

lemma unique_loop_set:
  "dom keys = set list \<Longrightarrow> set (unique_loop keys list xs) = set list \<union> set xs"
proof (induction xs arbitrary: keys list)
  case Nil
  then show ?case by simp
next
  case (Cons entry rest)
  show ?case
  proof (cases "keys entry")
    case None
    have k: "dom (keys(entry \<mapsto> True)) = set (list @ [entry])"
      using Cons.prems by simp
    show ?thesis
      unfolding unique_loop_step_new [of keys entry list rest, OF None] Cons.IH [OF k] by auto
  next
    case (Some b)
    then have "entry \<in> dom keys" by (simp add: domIff)
    then have "entry \<in> set list" using Cons.prems by simp
    then show ?thesis
      unfolding unique_loop_step_seen [of keys entry b list rest, OF Some] Cons.IH [OF Cons.prems] by auto
  qed
qed

lemma distinct_unique: "distinct (unique xs)"
  unfolding unique_def by (rule unique_loop_distinct) simp_all

lemma set_unique: "set (unique xs) = set xs"
  unfolding unique_def by (subst unique_loop_set) simp_all

text \<open>
  Every Stage that \<open>addShorthandToStage\<close> leaves has a duplicate-free build list; the
  receiving loop of the concurrent branch reads two of three results; a serial run that
  fails has called the renderer on the scripts up to the failing one and on no later one.
\<close>

lemma finishShorthand_builds_distinct:
  "distinct (BuildArtifacts (finishShorthand stage builds requires order' visit))"
  by (simp add: finishShorthand_def Let_def distinct_unique split: prod.splits)

lemma addShorthandToStage_builds_distinct:
  "Inr s' \<in> set (addShorthandToStage canArtifact artifact s) \<Longrightarrow> distinct (BuildArtifacts s')"
  by (auto simp: addShorthandToStage_def Let_def finishShorthand_builds_distinct
           split: sum.splits)

lemma drain_three: "drain 0 [None, None, Some e] None = Some None"
  by simp

lemma runSerial_stops:
  "runSerial rd ctx envVars vs st = (Some err, st') \<Longrightarrow>
     \<exists>k < length vs. snd st' = snd st @ take (Suc k) vs"
proof (induction vs arbitrary: st)
  case Nil
  then show ?case by simp
next
  case (Cons v vs)
  obtain r st1 where r: "render rd ctx envVars v st = (r, st1)" by (cases "render rd ctx envVars v st")
  then have calls: "snd st1 = snd st @ [v]" by (auto simp: render_def split: prod.splits)
  show ?case
  proof (cases r)
    case None
    with r Cons.prems have "runSerial rd ctx envVars vs st1 = (Some err, st')" by simp
    from Cons.IH [OF this] obtain k where "k < length vs" "snd st' = snd st1 @ take (Suc k) vs"
      by blast
    then show ?thesis using calls by (intro exI [of _ "Suc k"]) simp
  next
    case (Some e)
    with r Cons.prems have "st' = st1" by simp
    then show ?thesis using calls by (intro exI [of _ 0]) simp
  qed
qed

section \<open>The planner: results\<close>

text \<open>
  C10. \<open>GenerateStages\<close> called with no shorthand group returns at once: the job spec is
  the one it was given, with no Stage appended and with \<open>DelayedMetaMerge\<close> and
  \<open>StrictMode\<close> untouched. It is the only outcome.
\<close>

theorem GenerateStages_empty: "GenerateStages canArtifact [] j = [Inr j]"
  by (simp add: GenerateStages_def)

text \<open>
  C3. Planning is not deterministic. For the single group \<open>base+metal\<close>, whatever the
  catalogue and the job spec, the call has two outcomes that differ in \<open>BuildArtifacts\<close>:
  the map \<open>artifactOrder\<close> has the keys 1 and 2, and \<open>range\<close> may visit 2 first, which
  puts \<open>metal\<close> before \<open>base\<close>.
\<close>

theorem GenerateStages_base_metal:
  "GenerateStages canArtifact [''base+metal''] j =
     [Inr (j\<lparr>DelayedMetaMerge := True, Job := (Job j)\<lparr>StrictMode := True\<rparr>,
            Stages := Stages j @
              [\<lparr>ID = ''Generated Stage in Execution Order 1'',
                Description = ''Stage 1 execution for base,metal'',
                ConcurrentExecution = False, DirectExec = False, NotBlocking = False,
                RequireArtifacts = [], BuildArtifacts = [''base'', ''metal''],
                Commands = [], PrepCommands = [], PostCommands = [], PostAlways = False,
                ExecutionOrder = 1\<rparr>]\<rparr>),
      Inr (j\<lparr>DelayedMetaMerge := True, Job := (Job j)\<lparr>StrictMode := True\<rparr>,
            Stages := Stages j @
              [\<lparr>ID = ''Generated Stage in Execution Order 1'',
                Description = ''Stage 1 execution for base,metal'',
                ConcurrentExecution = False, DirectExec = False, NotBlocking = False,
                RequireArtifacts = [], BuildArtifacts = [''metal'', ''base''],
                Commands = [], PrepCommands = [], PostCommands = [], PostAlways = False,
                ExecutionOrder = 1\<rparr>]\<rparr>)]"
  by (simp add: planner_eval)

text \<open>
  C1. The third part of the invariant fails. For the single group \<open>base+live-iso\<close> every
  outcome is a Stage that builds \<open>base\<close> and still requires \<open>qemu\<close>. The pruning loop has
  already taken \<open>base\<close> out of the requirements (the stage builds it) when
  \<open>remove(realRequires, "base")\<close> looks for it, so \<open>foundBase\<close> is false and the removal
  of \<open>ostree\<close> and \<open>qemu\<close> is not reached.
\<close>

theorem GenerateStages_base_live_iso:
  "GenerateStages canArtifact [''base+live-iso''] j =
     [Inr (j\<lparr>DelayedMetaMerge := True, Job := (Job j)\<lparr>StrictMode := True\<rparr>,
            Stages := Stages j @
              [\<lparr>ID = ''Generated Stage in Execution Order 1'',
                Description = ''Stage 1 execution for base,live-iso'',
                ConcurrentExecution = False, DirectExec = False, NotBlocking = False,
                RequireArtifacts = [''qemu'', ''metal'', ''metal4k''],
                BuildArtifacts = [''base'', ''live-iso''],
                Commands = [], PrepCommands = [], PostCommands = [], PostAlways = False,
                ExecutionOrder = 1\<rparr>]\<rparr>),
      Inr (j\<lparr>DelayedMetaMerge := True, Job := (Job j)\<lparr>StrictMode := True\<rparr>,
            Stages := Stages j @
              [\<lparr>ID = ''Generated Stage in Execution Order 1'',
                Description = ''Stage 1 execution for base,live-iso'',
                ConcurrentExecution = False, DirectExec = False, NotBlocking = False,
                RequireArtifacts = [''qemu'', ''metal'', ''metal4k''],
                BuildArtifacts = [''live-iso'', ''base''],
                Commands = [], PrepCommands = [], PostCommands = [], PostAlways = False,
                ExecutionOrder = 1\<rparr>]\<rparr>)]"
  by (simp add: planner_eval)

text \<open>
  C2, as stated, is false: on the empty job spec no outcome of the group
  \<open>base+metal+live-iso\<close> is a single Stage with order 1, builds
  \<open>[base, metal, live-iso]\<close> and no requirement.
\<close>

theorem GenerateStages_S2_counterexample:
  "Inr [(1, [''base'', ''metal'', ''live-iso''], [])]
     \<notin> set (map plans (GenerateStages sampleCatalogue [''base+metal+live-iso''] emptyJobSpec))"
  by (simp add: planner_eval plans_def plan_def emptyJobSpec_def)

text \<open>
  C2, amended. For the single group \<open>base+metal+live-iso\<close> the call has an outcome, and
  every outcome sets the two flags and appends exactly one Stage. That Stage has execution
  order 1; it builds \<open>base\<close>, \<open>metal\<close> and \<open>live-iso\<close>, each once, with \<open>metal\<close> before
  \<open>live-iso\<close>; it requires \<open>metal4k\<close>, which it does not build, and requires neither
  \<open>metal\<close> nor \<open>base\<close>.
\<close>

theorem GenerateStages_base_metal_live_iso:
  "GenerateStages canArtifact [''base+metal+live-iso''] j \<noteq> [] \<and>
   (\<forall>r \<in> set (GenerateStages canArtifact [''base+metal+live-iso''] j).
      \<exists>s. r = Inr (j\<lparr>DelayedMetaMerge := True, Job := (Job j)\<lparr>StrictMode := True\<rparr>,
                     Stages := Stages j @ [s]\<rparr>)
        \<and> ExecutionOrder s = 1
        \<and> mset (BuildArtifacts s) = {#''base'', ''metal'', ''live-iso''#}
        \<and> filter (\<lambda>a. a \<noteq> ''base'') (BuildArtifacts s) = [''metal'', ''live-iso'']
        \<and> ''metal4k'' \<in> set (RequireArtifacts s)
        \<and> ''metal'' \<notin> set (RequireArtifacts s)
        \<and> ''base'' \<notin> set (RequireArtifacts s))"
  apply (simp add: planner_eval)
  apply (intro conjI)
     apply (rule exI, rule conjI, rule refl, simp)+
  done

text \<open>
  C2, amended, at the empty job spec and the sample catalogue: one of the outcomes, and
  what the theorem says of it.
\<close>

theorem GenerateStages_base_metal_live_iso_witness:
  "Inr \<lparr>Stages =
          [\<lparr>ID = ''Generated Stage in Execution Order 1'',
            Description = ''Stage 1 execution for base,metal,live-iso'',
            ConcurrentExecution = False, DirectExec = False, NotBlocking = False,
            RequireArtifacts = [''qemu'', ''metal4k''],
            BuildArtifacts = [''metal'', ''live-iso'', ''base''],
            Commands = [], PrepCommands = [], PostCommands = [], PostAlways = False,
            ExecutionOrder = 1\<rparr>],
        DelayedMetaMerge = True, Job = \<lparr>StrictMode = True\<rparr>\<rparr>
     \<in> set (GenerateStages sampleCatalogue [''base+metal+live-iso''] emptyJobSpec)
   \<and> GenerateStages sampleCatalogue [''base+metal+live-iso''] emptyJobSpec \<noteq> []"
  using GenerateStages_base_metal_live_iso [of sampleCatalogue emptyJobSpec]
  by (simp add: planner_eval emptyJobSpec_def)

section \<open>The executor: results\<close>

text \<open>
  C5. The serial branch does not keep the insertion order. A stage that builds \<open>base\<close>
  and then has one user command runs \<open>script-0.sh\<close> (the build) and \<open>script-1.sh\<close> (the
  user command) in either order, because the serial loop ranges over the map \<open>scripts\<close>.
\<close>

theorem Execute_serial_order:
  "Execute quietSys (Some ()) (Some (failOn [])) []
      (zeroStage\<lparr>BuildArtifacts := [''base''], Commands := [''echo done'']\<rparr>) () =
   [(Returned None, (), [''/tmp/stages1/prep.sh'', ''/tmp/stages1/script-0.sh'',
                         ''/tmp/stages1/script-1.sh'', ''/tmp/stages1/post.sh'']),
    (Returned None, (), [''/tmp/stages1/prep.sh'', ''/tmp/stages1/script-1.sh'',
                         ''/tmp/stages1/script-0.sh'', ''/tmp/stages1/post.sh''])]"
  by (simp add: executor_eval)

text \<open>
  C4. The concurrent branch can lose an error. With three commands of which the renderer
  fails the third, the run in which the tasks finish in the order 0, 1, 2 calls the renderer
  on all three scripts and returns \<open>nil\<close>: the receiving loop stops after two of the three
  results.
\<close>

theorem Execute_concurrent_lost_error:
  "(Returned None, (), [''/tmp/stages1/prep.sh'', ''/tmp/stages1/script-0.sh'',
                        ''/tmp/stages1/script-1.sh'', ''/tmp/stages1/script-2.sh'',
                        ''/tmp/stages1/post.sh''])
     \<in> set (Execute quietSys (Some ()) (Some (failOn ''/tmp/stages1/script-2.sh'')) []
               (zeroStage\<lparr>Commands := [''true'', ''true'', ''false''],
                           ConcurrentExecution := True, PostAlways := True\<rparr>) ())"
  by (simp add: executor_eval)

text \<open>
  C6. With \<open>PostAlways\<close> false, \<open>post.sh\<close> can run although a main command failed: in
  the concurrent run above, now without \<open>PostAlways\<close>, the failure of \<open>script-2.sh\<close> is
  lost, \<open>post.sh\<close> is handed to the renderer and its result, \<open>nil\<close>, is returned.
\<close>

theorem Execute_post_after_failed_main:
  "(Returned None, (), [''/tmp/stages1/prep.sh'', ''/tmp/stages1/script-0.sh'',
                        ''/tmp/stages1/script-1.sh'', ''/tmp/stages1/script-2.sh'',
                        ''/tmp/stages1/post.sh''])
     \<in> set (Execute quietSys (Some ()) (Some (failOn ''/tmp/stages1/script-2.sh'')) []
               (zeroStage\<lparr>Commands := [''true'', ''true'', ''false''],
                           ConcurrentExecution := True, PostAlways := False\<rparr>) ())"
  by (simp add: executor_eval)

lemma outf_not_prep: "outf tmpd i \<noteq> prepScript tmpd"
  by (simp add: outf_def prepScript_def filepath_Join_def)

lemma outf_not_post: "outf tmpd i \<noteq> postScript tmpd"
  by (simp add: outf_def postScript_def filepath_Join_def)

text \<open>
  C9. When \<open>Execute\<close> has reached the loop that writes the command scripts (the commands
  are there, the scratch directory exists, \<open>prep.sh\<close> is written and has run, \<open>post.sh\<close>
  is written) and a write in that loop fails, \<open>Execute\<close> returns \<open>nil\<close>. The renderer has
  been called on \<open>prep.sh\<close>, and on \<open>post.sh\<close> if \<open>PostAlways\<close> holds, and on no
  \<open>script-<i>.sh\<close>.
\<close>

theorem Execute_script_write_fails:
  assumes "getCommands sys s rd = Inr cmds" and "cmds \<noteq> []"
    and "TempDir sys w = (Inr tmpd, w0)"
    and "WriteFile sys (prepScript tmpd) (Join (PrepCommands s) [CHR 0x0A]) w0 = (None, w1)"
    and "RendererExecuter rd ctx envVars (prepScript tmpd) w1 = (None, w2)"
    and "WriteFile sys (postScript tmpd) (Join (PostCommands s) [CHR 0x0A]) w2 = (None, w3)"
    and "writeScripts sys tmpd cmds 0 w3 = (None, w4)"
  shows "\<exists>w' calls.
           Execute sys (Some ctx) (Some rd) envVars s w = [(Returned None, w', calls)]
         \<and> calls = prepScript tmpd # (if PostAlways s then [postScript tmpd] else [])
         \<and> (\<forall>i. outf tmpd i \<notin> set calls)"
  using assms
  by (simp add: Execute_def leave_def render_def outf_not_prep outf_not_post
           split: prod.splits)

text \<open>
  C9 on a full disk: the write of \<open>script-0.sh\<close> fails, \<open>Execute\<close> returns \<open>nil\<close> after
  \<open>prep.sh\<close> and the deferred \<open>post.sh\<close>.
\<close>

theorem Execute_script_write_fails_witness:
  "Execute fullDiskSys (Some ()) (Some (failOn [])) []
      (zeroStage\<lparr>Commands := [''true''], PostAlways := True\<rparr>) () =
   [(Returned None, (), [''/tmp/stages1/prep.sh'', ''/tmp/stages1/post.sh''])]"
  using Execute_script_write_fails
    [where sys = fullDiskSys and rd = "failOn []" and cmds = "[''true'']"
       and s = "zeroStage\<lparr>Commands := [''true''], PostAlways := True\<rparr>"
       and w = "()" and tmpd = "''/tmp/stages1''" and ctx = "()" and envVars = "[]"
       and ?w0.0 = "()" and ?w1.0 = "()" and ?w2.0 = "()" and ?w3.0 = "()" and ?w4.0 = "()"]
  by (simp add: executor_eval)

section \<open>The cluster runner: results\<close>

lemma watchLoop_waiting: "list_all waiting pre \<Longrightarrow> watchLoop (pre @ picks) = watchLoop picks"
proof (induction pre)
  case Nil
  then show ?case by simp
next
  case (Cons ev pre)
  then show ?case
    by (cases ev rule: waiting.cases) (auto split: PodPhase.splits)
qed

text \<open>
  C7. Let the picks before \<open>ev\<close> all be pod events with a phase that is not terminal.
  If \<open>ev\<close> itself is not such an event, the runner returns \<open>nil\<close> exactly when the calls
  before the loop succeeded and \<open>ev\<close> is the phase \<open>Succeeded\<close> or the end of the
  context. After those calls have succeeded: phase \<open>Succeeded\<close> returns \<open>nil\<close>; phase
  \<open>Failed\<close>, the closing of the watch channel and the timer return an error; the end of
  the context returns \<open>nil\<close>; a signal returns the error "Termination requested", which
  no other way out of the loop returns.
\<close>

theorem clusterRunner_results:
  assumes "list_all waiting pre"
  shows "(\<not> waiting ev \<longrightarrow>
            (clusterRunner c podName (pre @ ev # rest) = Returns None \<longleftrightarrow>
               GetClient c = None \<and> Create c = None \<and> Watch c = None
               \<and> (ev = WatchEvent (Some PodSucceeded) \<or> ev = CtxDone)))
       \<and> (GetClient c = None \<and> Create c = None \<and> Watch c = None \<longrightarrow>
            clusterRunner c podName (pre @ WatchEvent (Some PodSucceeded) # rest) = Returns None
          \<and> (\<exists>e. clusterRunner c podName (pre @ WatchEvent (Some PodFailed) # rest)
                     = Returns (Some e))
          \<and> (\<exists>e. clusterRunner c podName (pre @ WatchClosed # rest) = Returns (Some e))
          \<and> (\<exists>e. clusterRunner c podName (pre @ TimeAfter # rest) = Returns (Some e))
          \<and> clusterRunner c podName (pre @ CtxDone # rest) = Returns None
          \<and> clusterRunner c podName (pre @ Sigs # rest)
               = Returns (Some (New ''Termination requested''))
          \<and> (\<not> waiting ev \<and> ev \<noteq> Sigs \<longrightarrow>
                clusterRunner c podName (pre @ ev # rest)
                  \<noteq> Returns (Some (New ''Termination requested''))))"
proof -
  have loop: "watchLoop (pre @ ev' # rest) = watchLoop (ev' # rest)" for ev'
    using assms by (rule watchLoop_waiting)
  have nil_iff: "\<not> waiting ev \<Longrightarrow>
      (watchLoop (ev # rest) = Returns None \<longleftrightarrow>
         ev = WatchEvent (Some PodSucceeded) \<or> ev = CtxDone)"
    by (cases ev rule: waiting.cases) (auto split: PodPhase.splits)
  have sig: "\<not> waiting ev \<Longrightarrow> ev \<noteq> Sigs \<Longrightarrow>
      watchLoop (ev # rest) \<noteq> Returns (Some (New ''Termination requested''))"
    by (cases ev rule: waiting.cases) (auto split: PodPhase.splits)
  show ?thesis
    using nil_iff sig
    by (auto simp: clusterRunner_def loop split: option.splits)
qed

text \<open>
  C7 for a pod seen pending, then running, then failed, succeeded, or cut short by a
  signal.
\<close>

theorem clusterRunner_results_witness:
  "clusterRunner \<lparr>GetClient = None, Create = None, Watch = None\<rparr> ''worker-0''
      [WatchEvent (Some PodPending), WatchEvent (Some PodRunning), WatchEvent (Some PodFailed)]
     = Returns (Some (New ''Pod is a failure in its life''))
   \<and> clusterRunner \<lparr>GetClient = None, Create = None, Watch = None\<rparr> ''worker-0''
      [WatchEvent (Some PodPending), WatchEvent (Some PodRunning), Sigs]
     = Returns (Some (New ''Termination requested''))
   \<and> clusterRunner \<lparr>GetClient = None, Create = None, Watch = None\<rparr> ''worker-0''
      [WatchEvent (Some PodPending), WatchEvent (Some PodRunning), WatchEvent (Some PodSucceeded)]
     = Returns None"
  using clusterRunner_results
    [of "[WatchEvent (Some PodPending), WatchEvent (Some PodRunning)]"
        "WatchEvent (Some PodFailed)" "\<lparr>GetClient = None, Create = None, Watch = None\<rparr>"
        "''worker-0''" "[]"]
  by (simp add: clusterRunner_def)

end
